theory Spec2Isabelle
  imports Complex_Main "HOL-Library.AList"
begin

section \<open>Python values, dictionaries and exceptions\<close>

text \<open>
  The application of \<^verbatim>\<open>segmentation_spleen_scribbles/main.py\<close> handles requests and
  results that are Python dictionaries with string keys. A dictionary is an association
  list in insertion order: \<^verbatim>\<open>d.get(k)\<close> reads the entry of \<open>k\<close> (\<open>None\<close> when there is
  none), \<^verbatim>\<open>d[k] = v\<close> replaces the entry where it stands or appends a new one, and
  \<^verbatim>\<open>d.pop(k, None)\<close> removes it. Floating point values do not occur in what the
  application inspects and are left out of the value type.
\<close>

datatype pyval =
    PNone
  | PBool bool
  | PInt int
  | PStr string
  | PList "pyval list"
  | PDict "(string \<times> pyval) list"

type_synonym pydict = "(string \<times> pyval) list"

datatype exn =
    KeyError pyval
  | TypeError
  | AttributeError
  | ValueError string
  | OSError string
  | MONAILabelException string

text \<open>Truth value testing, as \<^verbatim>\<open>if logits and ...\<close> applies it.\<close>

fun truthy :: "pyval \<Rightarrow> bool" where
  "truthy PNone = False"
| "truthy (PBool b) = b"
| "truthy (PInt i) = (i \<noteq> 0)"
| "truthy (PStr s) = (s \<noteq> [])"
| "truthy (PList xs) = (xs \<noteq> [])"
| "truthy (PDict d) = (d \<noteq> [])"

definition dict_get :: "pydict \<Rightarrow> string \<Rightarrow> pyval" where
  "dict_get d k = (case map_of d k of None \<Rightarrow> PNone | Some v \<Rightarrow> v)"

definition dict_set :: "pydict \<Rightarrow> string \<Rightarrow> pyval \<Rightarrow> pydict" where
  "dict_set d k v = AList.update k v d"

definition dict_pop :: "pydict \<Rightarrow> string \<Rightarrow> pydict" where
  "dict_pop d k = AList.delete k d"

definition has_key :: "pydict \<Rightarrow> string \<Rightarrow> bool" where
  "has_key d k = (k \<in> fst ` set d)"

section \<open>The application's environment\<close>

text \<open>
  \<open>InferType\<close> is the framework's enumeration of task kinds. The framework's datastore,
  the file system and the base class's \<^verbatim>\<open>infer\<close> are not code of this repository: they
  are the fields of an environment over a world \<open>'w\<close> of the datastore and the files.
  The two datastore queries read the world; \<^verbatim>\<open>save_label\<close>, \<^verbatim>\<open>os.unlink\<close> and the
  base \<^verbatim>\<open>infer\<close> return a value or an exception together with the world they leave.
  The base call is given the request and returns a result; it is taken not to rebind the
  caller's request. \<open>infers\<close> is \<^verbatim>\<open>self._infers\<close>, each task reduced to its \<^verbatim>\<open>type\<close>.
\<close>

datatype InferType = SEGMENTATION | CLASSIFICATION | DEEPGROW | DEEPEDIT | SCRIBBLES | OTHERS

record 'w env =
  infers :: "(string \<times> InferType) list"
  get_labels_by_image_id :: "'w \<Rightarrow> pyval \<Rightarrow> exn + (string \<times> string) list"
  get_label_uri :: "'w \<Rightarrow> string \<Rightarrow> string \<Rightarrow> exn + string"
  save_label :: "'w \<Rightarrow> pyval \<Rightarrow> pyval \<Rightarrow> string \<Rightarrow> pydict \<Rightarrow> (exn + string) \<times> 'w"
  unlink :: "'w \<Rightarrow> pyval \<Rightarrow> (exn + unit) \<times> 'w"
  super_infer :: "'w \<Rightarrow> pydict \<Rightarrow> (exn + pyval) \<times> 'w"

text \<open>
  Every call that leaves \<^verbatim>\<open>infer\<close> is logged with its arguments, in the order of the
  calls, so that what was called, with what and how often can be stated.
\<close>

datatype call =
    GetLabelsByImageId pyval
  | GetLabelUri string string
  | SuperInfer pydict
  | SaveLabel pyval pyval string pydict
  | Unlink pyval

record 'w state =
  world :: 'w
  calls :: "call list"

definition logged :: "call \<Rightarrow> 'w \<Rightarrow> 'w state \<Rightarrow> 'w state" where
  "logged c w s = \<lparr>world = w, calls = calls s @ [c]\<rparr>"

section \<open>\<^verbatim>\<open>MyApp.infer\<close>\<close>

text \<open>
  \<^verbatim>\<open>self._infers[request.get("model")].type\<close>: subscripting the registry raises
  \<open>KeyError\<close> for a key it does not hold (also \<open>None\<close>, when the request has no model) and
  \<open>TypeError\<close> for an unhashable key.
\<close>

definition infer_type :: "'w env \<Rightarrow> pydict \<Rightarrow> exn + InferType" where
  "infer_type e request =
     (case dict_get request ''model'' of
        PStr m \<Rightarrow> (case map_of (infers e) m of
                     None \<Rightarrow> Inl (KeyError (PStr m))
                   | Some t \<Rightarrow> Inr t)
      | PList xs \<Rightarrow> Inl TypeError
      | PDict d \<Rightarrow> Inl TypeError
      | v \<Rightarrow> Inl (KeyError v))"

text \<open>
  The loop \<^verbatim>\<open>for tag, label in saved_labels.items()\<close>: an entry tagged \<open>"logits"\<close>
  asks the datastore for the label's URI and stores it in the request.
\<close>

fun add_saved_logits ::
  "'w env \<Rightarrow> (string \<times> string) list \<Rightarrow> pydict \<Rightarrow> 'w state \<Rightarrow> (exn + pydict) \<times> 'w state" where
  "add_saved_logits e [] request s = (Inr request, s)"
| "add_saved_logits e ((tag, label) # items) request s =
     (if tag = ''logits'' then
        (case get_label_uri e (world s) label tag of
           Inl x \<Rightarrow> (Inl x, logged (GetLabelUri label tag) (world s) s)
         | Inr uri \<Rightarrow>
             add_saved_logits e items (dict_set request ''logits'' (PStr uri))
               (logged (GetLabelUri label tag) (world s) s))
      else add_saved_logits e items request s)"

text \<open>Lines 105 to 111: the branch taken for a task of kind \<open>SCRIBBLES\<close>.\<close>

definition add_logits_to_request ::
  "'w env \<Rightarrow> pyval \<Rightarrow> pydict \<Rightarrow> 'w state \<Rightarrow> (exn + pydict) \<times> 'w state" where
  "add_logits_to_request e img request s =
     (case infer_type e request of
        Inl x \<Rightarrow> (Inl x, s)
      | Inr t \<Rightarrow>
          if t = SCRIBBLES then
            (case get_labels_by_image_id e (world s) img of
               Inl x \<Rightarrow> (Inl x, logged (GetLabelsByImageId img) (world s) s)
             | Inr saved_labels \<Rightarrow>
                 add_saved_logits e saved_labels request
                   (logged (GetLabelsByImageId img) (world s) s))
          else (Inr request, s))"

text \<open>
  Lines 117 to 120: \<^verbatim>\<open>if logits and self._infers[...].type == InferType.SEGMENTATION\<close>.
  The registry is subscripted only when \<open>logits\<close> is true (\<^verbatim>\<open>and\<close> short-circuits);
  \<^verbatim>\<open>os.unlink\<close> runs only after \<^verbatim>\<open>save_label\<close> has returned.
\<close>

definition save_logits ::
  "'w env \<Rightarrow> pyval \<Rightarrow> pydict \<Rightarrow> pyval \<Rightarrow> 'w state \<Rightarrow> (exn + unit) \<times> 'w state" where
  "save_logits e img request logits s =
     (if truthy logits then
        (case infer_type e request of
           Inl x \<Rightarrow> (Inl x, s)
         | Inr t \<Rightarrow>
             if t = SEGMENTATION then
               (case save_label e (world s) img logits ''logits'' [] of
                  (Inl x, w1) \<Rightarrow> (Inl x, logged (SaveLabel img logits ''logits'' []) w1 s)
                | (Inr label_id, w1) \<Rightarrow>
                    (let s1 = logged (SaveLabel img logits ''logits'' []) w1 s in
                     case unlink e w1 logits of
                       (Inl x, w2) \<Rightarrow> (Inl x, logged (Unlink logits) w2 s1)
                     | (Inr u, w2) \<Rightarrow> (Inr (), logged (Unlink logits) w2 s1)))
             else (Inr (), s))
      else (Inr (), s))"

text \<open>
  Lines 113 to 124. \<^verbatim>\<open>result.get("params")\<close> and \<^verbatim>\<open>result_params.get("logits")\<close>
  need a dictionary each: on \<open>None\<close> or any other value the attribute lookup raises
  \<open>AttributeError\<close>. \<open>result_params\<close> is the object stored under \<open>"params"\<close> in the
  result, so popping \<open>"logits"\<close> from it changes the result that is returned.
\<close>

definition finish_result ::
  "'w env \<Rightarrow> pyval \<Rightarrow> pydict \<Rightarrow> pyval \<Rightarrow> 'w state \<Rightarrow> (exn + pyval) \<times> 'w state" where
  "finish_result e img request result s =
     (case result of
        PDict r \<Rightarrow>
          (case dict_get r ''params'' of
             PDict result_params \<Rightarrow>
               (case save_logits e img request (dict_get result_params ''logits'') s of
                  (Inl x, s1) \<Rightarrow> (Inl x, s1)
                | (Inr u, s1) \<Rightarrow>
                    (Inr (PDict (dict_set r ''params''
                            (PDict (dict_pop result_params ''logits'')))), s1))
           | _ \<Rightarrow> (Inl AttributeError, s))
      | _ \<Rightarrow> (Inl AttributeError, s))"

text \<open>
  What lines 114 to 124 return from a base result when the branch that saves is not
  taken: the result with \<open>"logits"\<close> popped from its \<open>params\<close>, or \<open>AttributeError\<close>.
\<close>

definition pop_logits :: "pyval \<Rightarrow> exn + pyval" where
  "pop_logits result =
     (case result of
        PDict r \<Rightarrow>
          (case dict_get r ''params'' of
             PDict result_params \<Rightarrow>
               Inr (PDict (dict_set r ''params'' (PDict (dict_pop result_params ''logits''))))
           | _ \<Rightarrow> Inl AttributeError)
      | _ \<Rightarrow> Inl AttributeError)"

text \<open>
  \<^verbatim>\<open>def infer(self, request, datastore=None)\<close>. The parameter \<open>datastore\<close> is never
  read: every datastore access goes through \<^verbatim>\<open>self.datastore()\<close>, the environment.
  The \<^verbatim>\<open>logger.info\<close> lines have no effect on the request, the result or the world.
\<close>

definition infer ::
  "'w env \<Rightarrow> pydict \<Rightarrow> 'd option \<Rightarrow> 'w state \<Rightarrow> (exn + pyval) \<times> 'w state" where
  "infer e request datastore s =
     (let img = dict_get request ''image'' in
      case add_logits_to_request e img request s of
        (Inl x, s1) \<Rightarrow> (Inl x, s1)
      | (Inr request1, s1) \<Rightarrow>
          (case super_infer e (world s1) request1 of
             (Inl x, w2) \<Rightarrow> (Inl x, logged (SuperInfer request1) w2 s1)
           | (Inr result, w2) \<Rightarrow>
               finish_result e img request1 result (logged (SuperInfer request1) w2 s1)))"


section \<open>Configuration and the registries\<close>

text \<open>
  \<^verbatim>\<open>distutils.util.strtobool\<close> lower-cases its argument and accepts six spellings of
  true and six of false; anything else raises \<open>ValueError\<close> (which carries the
  rejected string here). A string is the list of its code points, which are taken below
  256: a \<open>char\<close> is read as the Latin-1 character of that number. \<^verbatim>\<open>str.lower\<close> maps
  the capitals among them, \<open>A\<close> to \<open>Z\<close> and \<open>0xC0\<close> to \<open>0xDE\<close> without \<open>0xD7\<close>, to the
  character 32 places on.
\<close>

definition latin1_capitals :: "char list" where
  "latin1_capitals =
     [CHR 0xC0, CHR 0xC1, CHR 0xC2, CHR 0xC3, CHR 0xC4, CHR 0xC5, CHR 0xC6, CHR 0xC7,
      CHR 0xC8, CHR 0xC9, CHR 0xCA, CHR 0xCB, CHR 0xCC, CHR 0xCD, CHR 0xCE, CHR 0xCF,
      CHR 0xD0, CHR 0xD1, CHR 0xD2, CHR 0xD3, CHR 0xD4, CHR 0xD5, CHR 0xD6, CHR 0xD8,
      CHR 0xD9, CHR 0xDA, CHR 0xDB, CHR 0xDC, CHR 0xDD, CHR 0xDE]"

definition latin1_smalls :: "char list" where
  "latin1_smalls =
     [CHR 0xE0, CHR 0xE1, CHR 0xE2, CHR 0xE3, CHR 0xE4, CHR 0xE5, CHR 0xE6, CHR 0xE7,
      CHR 0xE8, CHR 0xE9, CHR 0xEA, CHR 0xEB, CHR 0xEC, CHR 0xED, CHR 0xEE, CHR 0xEF,
      CHR 0xF0, CHR 0xF1, CHR 0xF2, CHR 0xF3, CHR 0xF4, CHR 0xF5, CHR 0xF6, CHR 0xF8,
      CHR 0xF9, CHR 0xFA, CHR 0xFB, CHR 0xFC, CHR 0xFD, CHR 0xFE]"

definition lower_char :: "char \<Rightarrow> char" where
  "lower_char c =
     (case map_of (zip (''ABCDEFGHIJKLMNOPQRSTUVWXYZ'' @ latin1_capitals)
                       (''abcdefghijklmnopqrstuvwxyz'' @ latin1_smalls)) c of
        None \<Rightarrow> c
      | Some l \<Rightarrow> l)"

definition lower :: "string \<Rightarrow> string" where
  "lower val = map lower_char val"

definition true_words :: "string list" where
  "true_words = [''y'', ''yes'', ''t'', ''true'', ''on'', ''1'']"

definition false_words :: "string list" where
  "false_words = [''n'', ''no'', ''f'', ''false'', ''off'', ''0'']"

definition strtobool :: "string \<Rightarrow> exn + int" where
  "strtobool val =
     (let v = lower val in
      if v \<in> set true_words then Inr 1
      else if v \<in> set false_words then Inr 0
      else Inl (ValueError v))"

text \<open>
  \<^verbatim>\<open>int(str)\<close> in base ten. Whitespace is dropped at both ends: the six characters
  \<open>0x09\<close> to \<open>0x0D\<close> and the space, and the two Latin-1 spaces \<open>0x85\<close> and \<open>0xA0\<close>
  (the separators \<open>0x1C\<close> to \<open>0x1F\<close> are not dropped). One sign may lead, and single
  underscores may stand between digits; anything else raises \<open>ValueError\<close>, and so
  does a literal of more digits than the interpreter's limit, 4300 unless it is set
  otherwise.
\<close>

definition is_space :: "char \<Rightarrow> bool" where
  "is_space c =
     (c \<in> set [CHR '' '', CHR 0x09, CHR 0x0A, CHR 0x0B, CHR 0x0C, CHR 0x0D,
                CHR 0x85, CHR 0xA0])"

definition int_max_str_digits :: nat where
  "int_max_str_digits = 4300"

definition strip :: "string \<Rightarrow> string" where
  "strip s = rev (dropWhile is_space (rev (dropWhile is_space s)))"

definition digit_val :: "char \<Rightarrow> nat option" where
  "digit_val c = map_of (zip ''0123456789'' [0, 1, 2, 3, 4, 5, 6, 7, 8, 9]) c"

fun int_digits :: "bool \<Rightarrow> nat \<Rightarrow> string \<Rightarrow> nat option" where
  "int_digits after_digit acc [] = (if after_digit then Some acc else None)"
| "int_digits after_digit acc (c # cs) =
     (if c = CHR ''_'' then
        (if after_digit \<and> cs \<noteq> [] then int_digits False acc cs else None)
      else
        (case digit_val c of
           None \<Rightarrow> None
         | Some d \<Rightarrow> int_digits True (10 * acc + d) cs))"

definition py_int :: "string \<Rightarrow> exn + int" where
  "py_int s =
     (let t = strip s;
          (neg, ds) = (case t of
                         c # cs \<Rightarrow> if c = CHR ''-'' then (True, cs)
                                   else if c = CHR ''+'' then (False, cs)
                                   else (False, t)
                       | [] \<Rightarrow> (False, t))
      in case int_digits False 0 ds of
           None \<Rightarrow> Inl (ValueError s)
         | Some n \<Rightarrow>
             if int_max_str_digits < length (filter (\<lambda>c. c \<noteq> CHR ''_'') ds)
             then Inl (ValueError s)
             else Inr (if neg then - int n else int n))"

text \<open>\<^verbatim>\<open>os.path.join\<close> of two POSIX path components.\<close>

definition path_join :: "string \<Rightarrow> string \<Rightarrow> string" where
  "path_join a b =
     (if b \<noteq> [] \<and> hd b = CHR ''/'' then b
      else if a = [] \<or> last a = CHR ''/'' then a @ b
      else a @ ''/'' @ b)"

text \<open>\<^verbatim>\<open>conf.get(key, default)\<close> on the configuration, a dictionary of strings.\<close>

definition conf_get :: "(string \<times> string) list \<Rightarrow> string \<Rightarrow> string \<Rightarrow> string" where
  "conf_get conf k dflt = (case map_of conf k of None \<Rightarrow> dflt | Some v \<Rightarrow> v)"

text \<open>
  The fields \<^verbatim>\<open>MyApp.__init__\<close> sets before it calls the base constructor, which
  stores what \<^verbatim>\<open>init_strategies\<close> and \<^verbatim>\<open>init_scoring_methods\<close> return as the
  registries. \<open>strtobool\<close> is evaluated before \<open>int\<close>; either may raise. \<open>studies\<close> is
  only handed on to the base constructor.
\<close>

record MyApp =
  model_dir :: string
  final_model :: string
  mmar :: string
  tta_enabled :: int
  tta_samples :: int

definition MyApp_init :: "string \<Rightarrow> string \<Rightarrow> (string \<times> string) list \<Rightarrow> exn + MyApp" where
  "MyApp_init app_dir studies conf =
     (let md = path_join app_dir ''model'';
          fm = path_join md ''model.pt''
      in case strtobool (conf_get conf ''tta_enabled'' ''false'') of
           Inl x \<Rightarrow> Inl x
         | Inr b \<Rightarrow>
             (case py_int (conf_get conf ''tta_samples'' ''5'') of
                Inl x \<Rightarrow> Inl x
              | Inr n \<Rightarrow>
                  Inr \<lparr>model_dir = md, final_model = fm,
                       mmar = ''clara_pt_spleen_ct_segmentation_1'',
                       tta_enabled = b, tta_samples = n\<rparr>))"

datatype Strategy = TTA | Random | MyStrategy

definition init_strategies :: "MyApp \<Rightarrow> (string \<times> Strategy) list" where
  "init_strategies self =
     (let strategies = [];
          strategies = (if tta_enabled self \<noteq> 0
                        then AList.update ''TTA'' TTA strategies else strategies);
          strategies = AList.update ''random'' Random strategies;
          strategies = AList.update ''first'' MyStrategy strategies
      in strategies)"

text \<open>
  \<^verbatim>\<open>load_from_mmar\<close> fetches the network of the model archive; it belongs to the
  toolkit and is a parameter, which may raise.
\<close>

record 'n TTAScoring =
  model :: string
  network :: 'n
  num_samples :: int
  spatial_size :: "int \<times> int \<times> int"
  spacing :: "real \<times> real \<times> real"

definition init_scoring_methods ::
  "(string \<Rightarrow> string \<Rightarrow> exn + 'n) \<Rightarrow> MyApp \<Rightarrow> exn + (string \<times> 'n TTAScoring) list" where
  "init_scoring_methods load_from_mmar self =
     (let methods = [] in
      if tta_enabled self \<noteq> 0 then
        (case load_from_mmar (mmar self) (model_dir self) of
           Inl x \<Rightarrow> Inl x
         | Inr net \<Rightarrow>
             Inr (AList.update ''TTA''
                    \<lparr>model = final_model self, network = net,
                     num_samples = tta_samples self,
                     spatial_size = (128, 128, 64), spacing = (1, 1, 1)\<rparr> methods))
      else Inr methods)"

section \<open>A label store on disk, for closed examples\<close>

text \<open>
  Modelled from the spec: the host framework's label store and the file system, which
  are not part of this repository. The instance below is used only to run \<^verbatim>\<open>infer\<close>
  on concrete inputs; the general theorems hold for every environment. As in the spec's
  data model, a label is persisted by image identifier and tag, a later write for the
  same image and tag supersedes the earlier one, and the label's content is a file on
  disk. \<open>save_label\<close> copies the given file into the store; \<open>unlink\<close> removes a file
  or raises when there is none.
\<close>

record store =
  labels :: "((string \<times> string) \<times> string) list"
  files :: "string list"

definition label_path :: "string \<Rightarrow> string \<Rightarrow> string" where
  "label_path tag label = ''/ds/'' @ tag @ ''/'' @ label"

definition ds_get_labels :: "store \<Rightarrow> pyval \<Rightarrow> exn + (string \<times> string) list" where
  "ds_get_labels w img =
     (case img of
        PStr i \<Rightarrow> Inr (map (\<lambda>((i', tag), label). (tag, label))
                        (filter (\<lambda>((i', tag), label). i' = i) (labels w)))
      | _ \<Rightarrow> Inr [])"

definition ds_get_label_uri :: "store \<Rightarrow> string \<Rightarrow> string \<Rightarrow> exn + string" where
  "ds_get_label_uri w label tag = Inr (label_path tag label)"

definition ds_save_label ::
  "store \<Rightarrow> pyval \<Rightarrow> pyval \<Rightarrow> string \<Rightarrow> pydict \<Rightarrow> (exn + string) \<times> store" where
  "ds_save_label w img file tag info =
     (case (img, file) of
        (PStr i, PStr f) \<Rightarrow>
          if f \<in> set (files w) then
            (Inr i, w\<lparr>labels := AList.update (i, tag) i (labels w),
                      files := List.insert (label_path tag i) (files w)\<rparr>)
          else (Inl (OSError ''No such file''), w)
      | _ \<Rightarrow> (Inl TypeError, w))"

definition fs_unlink :: "store \<Rightarrow> pyval \<Rightarrow> (exn + unit) \<times> store" where
  "fs_unlink w path =
     (case path of
        PStr f \<Rightarrow>
          if f \<in> set (files w) then (Inr (), w\<lparr>files := removeAll f (files w)\<rparr>)
          else (Inl (OSError ''No such file''), w)
      | _ \<Rightarrow> (Inl TypeError, w))"

text \<open>
  A base \<^verbatim>\<open>infer\<close> for the examples: the segmentation task writes its logits to a
  temporary file and names it in the result's \<open>params\<close>; every other task returns
  empty \<open>params\<close>.
\<close>

definition base_infer :: "store \<Rightarrow> pydict \<Rightarrow> (exn + pyval) \<times> store" where
  "base_infer w request =
     (if dict_get request ''model'' = PStr ''Spleen_Segmentation'' then
        (Inr (PDict [(''label'', PStr ''/tmp/seg''),
                     (''params'', PDict [(''logits'', PStr ''/tmp/lg'')])]),
         w\<lparr>files := List.insert ''/tmp/lg'' (List.insert ''/tmp/seg'' (files w))\<rparr>)
      else
        (Inr (PDict [(''label'', PStr ''/tmp/scr''), (''params'', PDict [])]),
         w\<lparr>files := List.insert ''/tmp/scr'' (files w)\<rparr>))"

definition app_env :: "store env" where
  "app_env =
     \<lparr>infers = [(''Spleen_Segmentation'', SEGMENTATION), (''Histogram+GraphCut'', SCRIBBLES)],
      get_labels_by_image_id = ds_get_labels,
      get_label_uri = ds_get_label_uri,
      save_label = ds_save_label,
      unlink = fs_unlink,
      super_infer = base_infer\<rparr>"

definition raising :: "exn \<Rightarrow> 'w \<Rightarrow> (exn + 'a) \<times> 'w" where
  "raising x w = (Inl x, w)"

definition seg_request :: pydict where
  "seg_request = [(''image'', PStr ''im1''), (''model'', PStr ''Spleen_Segmentation'')]"

definition scr_request :: pydict where
  "scr_request = [(''image'', PStr ''im1''), (''model'', PStr ''Histogram+GraphCut'')]"

definition empty_store :: "store state" where
  "empty_store = \<lparr>world = \<lparr>labels = [], files = []\<rparr>, calls = []\<rparr>"

definition saved_store :: "store state" where
  "saved_store =
     \<lparr>world = \<lparr>labels = [((''im1'', ''logits''), ''im1'')], files = [''/ds/logits/im1'']\<rparr>,
      calls = []\<rparr>"

text \<open>
  Variants of the environment: a base call whose result carries an empty \<open>logits\<close>
  value, a base call whose result repeats the request it was given, and one failing
  operation each.
\<close>

definition blank_logits_env :: "store env" where
  "blank_logits_env =
     app_env\<lparr>super_infer :=
       \<lambda>w request. (Inr (PDict [(''params'', PDict [(''logits'', PStr '''')])]), w)\<rparr>"

definition echo_env :: "store env" where
  "echo_env =
     app_env\<lparr>super_infer :=
       \<lambda>w request.
         (Inr (PDict [(''params'', PDict [(''request'', PDict request)])]),
          w\<lparr>files := List.insert ''/tmp/scr'' (files w)\<rparr>)\<rparr>"

definition labels_error_env :: "store env" where
  "labels_error_env =
     app_env\<lparr>get_labels_by_image_id := \<lambda>w img. Inl (MONAILabelException ''labels'')\<rparr>"

definition uri_error_env :: "store env" where
  "uri_error_env =
     app_env\<lparr>get_label_uri := \<lambda>w label tag. Inl (MONAILabelException ''uri'')\<rparr>"

definition save_error_env :: "store env" where
  "save_error_env =
     app_env\<lparr>save_label := \<lambda>w img file tag info. raising (OSError ''full'') w\<rparr>"

definition unlink_error_env :: "store env" where
  "unlink_error_env = app_env\<lparr>unlink := \<lambda>w path. raising (OSError ''busy'') w\<rparr>"

text \<open>
  Applications as \<^verbatim>\<open>__init__\<close> leaves them for the application directory \<open>/app\<close>,
  with test-time augmentation on and off, and a model archive that loads.
\<close>

definition app_on :: MyApp where
  "app_on =
     \<lparr>model_dir = ''/app/model'', final_model = ''/app/model/model.pt'',
      mmar = ''clara_pt_spleen_ct_segmentation_1'', tta_enabled = 1, tta_samples = 5\<rparr>"

definition app_off :: MyApp where
  "app_off = app_on\<lparr>tta_enabled := 0\<rparr>"

definition loaded :: "string \<Rightarrow> string \<Rightarrow> exn + unit" where
  "loaded name dir = Inr ()"

lemmas ex_defs = app_env_def seg_request_def scr_request_def empty_store_def saved_store_def
  infer_type_def dict_get_def dict_set_def dict_pop_def has_key_def
  base_infer_def ds_get_labels_def ds_get_label_uri_def ds_save_label_def fs_unlink_def
  label_path_def raising_def Let_def

lemmas conf_defs = MyApp_init_def conf_get_def strtobool_def lower_def lower_char_def
  true_words_def false_words_def py_int_def strip_def is_space_def digit_val_def
  latin1_capitals_def latin1_smalls_def int_max_str_digits_def
  path_join_def init_strategies_def init_scoring_methods_def app_on_def app_off_def
  loaded_def Let_def

section \<open>Dictionaries and the steps of \<^verbatim>\<open>infer\<close>\<close>

lemma dict_get_set: "dict_get (dict_set d k v) k' = (if k' = k then v else dict_get d k')"
  by (simp add: dict_get_def dict_set_def update_conv')

lemma not_has_key_pop: "\<not> has_key (dict_pop d k) k"
  by (simp add: has_key_def dict_pop_def delete_notin_dom)

lemma infer_type_set_logits: "infer_type e (dict_set r ''logits'' v) = infer_type e r"
  by (simp add: infer_type_def dict_get_set)

lemma add_saved_logits_none:
  "''logits'' \<notin> fst ` set items \<Longrightarrow> add_saved_logits e items r s = (Inr r, s)"
  by (induction items) auto

lemma add_saved_logits_one:
  "distinct (map fst items) \<Longrightarrow> map_of items ''logits'' = Some label \<Longrightarrow>
   add_saved_logits e items r s =
     (case get_label_uri e (world s) label ''logits'' of
        Inl x \<Rightarrow> (Inl x, logged (GetLabelUri label ''logits'') (world s) s)
      | Inr uri \<Rightarrow> (Inr (dict_set r ''logits'' (PStr uri)),
                    logged (GetLabelUri label ''logits'') (world s) s))"
proof (induction items)
  case Nil
  then show ?case by simp
next
  case (Cons a items)
  obtain tag l where a: "a = (tag, l)" by (cases a)
  show ?case
  proof (cases "tag = ''logits''")
    case True
    with Cons.prems a have "l = label" and "''logits'' \<notin> fst ` set items" by auto
    with True a show ?thesis
      by (simp add: add_saved_logits_none split: sum.splits)
  next
    case False
    with Cons a show ?thesis by simp
  qed
qed



lemma save_logits_other_kind:
  "infer_type e r = Inr t \<Longrightarrow> t \<noteq> SEGMENTATION \<Longrightarrow> save_logits e img r l s = (Inr (), s)"
  by (simp add: save_logits_def)

lemma finish_result_no_logits:
  "finish_result e img r res s = (Inr res', s') \<Longrightarrow>
   \<exists>d p. res' = PDict d \<and> dict_get d ''params'' = PDict p \<and> \<not> has_key p ''logits''"
  by (auto simp: finish_result_def dict_get_set not_has_key_pop
           split: pyval.splits sum.splits prod.splits)

lemma add_logits_other_kind:
  "infer_type e r = Inr t \<Longrightarrow> t \<noteq> SCRIBBLES \<Longrightarrow> add_logits_to_request e img r s = (Inr r, s)"
  by (simp add: add_logits_to_request_def)

lemma infer_labels_error:
  assumes "infer_type e request = Inr SCRIBBLES"
    and "get_labels_by_image_id e (world s) (dict_get request ''image'') = Inl x"
  shows "infer e request d s =
           (Inl x, \<lparr>world = world s,
                    calls = calls s @ [GetLabelsByImageId (dict_get request ''image'')]\<rparr>)"
  using assms by (simp add: infer_def Let_def add_logits_to_request_def logged_def)

lemma infer_uri_error:
  assumes "infer_type e request = Inr SCRIBBLES"
    and "get_labels_by_image_id e (world s) (dict_get request ''image'') = Inr saved_labels"
    and "distinct (map fst saved_labels)"
    and "map_of saved_labels ''logits'' = Some label"
    and "get_label_uri e (world s) label ''logits'' = Inl x"
  shows "infer e request d s =
           (Inl x, \<lparr>world = world s,
                    calls = calls s @ [GetLabelsByImageId (dict_get request ''image''),
                                       GetLabelUri label ''logits'']\<rparr>)"
proof -
  let ?s0 = "logged (GetLabelsByImageId (dict_get request ''image'')) (world s) s"
  have "world ?s0 = world s" by (simp add: logged_def)
  then have "add_saved_logits e saved_labels request ?s0 =
          (Inl x, logged (GetLabelUri label ''logits'') (world s) ?s0)"
    using assms(3,4,5) by (simp add: add_saved_logits_one)
  then show ?thesis
    using assms(1,2) by (simp add: infer_def Let_def add_logits_to_request_def logged_def)
qed

lemma infer_save_error:
  assumes "infer_type e request = Inr SEGMENTATION"
    and "super_infer e (world s) request = (Inr (PDict r), w1)"
    and "dict_get r ''params'' = PDict p"
    and "truthy (dict_get p ''logits'')"
    and "save_label e w1 (dict_get request ''image'') (dict_get p ''logits'') ''logits'' []
           = (Inl x, w2)"
  shows "infer e request d s =
           (Inl x, \<lparr>world = w2,
                    calls = calls s @
                      [SuperInfer request,
                       SaveLabel (dict_get request ''image'') (dict_get p ''logits'')
                         ''logits'' []]\<rparr>)"
proof -
  have "add_logits_to_request e (dict_get request ''image'') request s = (Inr request, s)"
    using assms(1) by (simp add: add_logits_other_kind)
  then show ?thesis
    using assms
    by (simp add: infer_def Let_def finish_result_def save_logits_def logged_def)
qed

lemma infer_unlink_error:
  assumes "infer_type e request = Inr SEGMENTATION"
    and "super_infer e (world s) request = (Inr (PDict r), w1)"
    and "dict_get r ''params'' = PDict p"
    and "truthy (dict_get p ''logits'')"
    and "save_label e w1 (dict_get request ''image'') (dict_get p ''logits'') ''logits'' []
           = (Inr label_id, w2)"
    and "unlink e w2 (dict_get p ''logits'') = (Inl x, w3)"
  shows "infer e request d s =
           (Inl x, \<lparr>world = w3,
                    calls = calls s @
                      [SuperInfer request,
                       SaveLabel (dict_get request ''image'') (dict_get p ''logits'')
                         ''logits'' [],
                       Unlink (dict_get p ''logits'')]\<rparr>)"
proof -
  have "add_logits_to_request e (dict_get request ''image'') request s = (Inr request, s)"
    using assms(1) by (simp add: add_logits_other_kind)
  then show ?thesis
    using assms
    by (simp add: infer_def Let_def finish_result_def save_logits_def logged_def)
qed

lemma infer_type_unregistered:
  assumes "\<forall>m. dict_get request ''model'' = PStr m \<longrightarrow> map_of (infers e) m = None"
  shows "infer_type e request = Inl TypeError
         \<or> infer_type e request = Inl (KeyError (dict_get request ''model''))"
  using assms by (auto simp: infer_type_def split: pyval.splits option.splits)


lemma finish_result_pop:
  "infer_type e r = Inr t \<Longrightarrow> t \<noteq> SEGMENTATION \<Longrightarrow>
   finish_result e img r res s = (pop_logits res, s)"
  by (simp add: finish_result_def pop_logits_def save_logits_other_kind split: pyval.splits)



section \<open>The logits hand-off\<close>

text \<open>
  Claim C1, as the code has it. A call for a task of kind \<open>SEGMENTATION\<close> whose base
  result holds, in \<open>params\<close>, a \<open>logits\<close> value that is true in Python's truth test (a
  non-empty path), and whose \<open>save_label\<close> and \<open>os.unlink\<close> raise nothing, returns
  after exactly these calls: the base inference on the request, \<open>save_label\<close> with the
  request's image, that value, the tag \<open>"logits"\<close> and empty metadata, then \<open>os.unlink\<close>
  of that value. The result returned is the base result with \<open>"logits"\<close> removed from its
  \<open>params\<close>.
\<close>

theorem infer_saves_logits:
  assumes "infer_type e request = Inr SEGMENTATION"
    and "super_infer e (world s) request = (Inr (PDict r), w1)"
    and "dict_get r ''params'' = PDict p"
    and "truthy (dict_get p ''logits'')"
    and "save_label e w1 (dict_get request ''image'') (dict_get p ''logits'') ''logits'' []
           = (Inr label_id, w2)"
    and "unlink e w2 (dict_get p ''logits'') = (Inr (), w3)"
  shows "infer e request d s =
           (Inr (PDict (dict_set r ''params'' (PDict (dict_pop p ''logits'')))),
            \<lparr>world = w3,
             calls = calls s @
               [SuperInfer request,
                SaveLabel (dict_get request ''image'') (dict_get p ''logits'') ''logits'' [],
                Unlink (dict_get p ''logits'')]\<rparr>)
         \<and> dict_get (dict_set r ''params'' (PDict (dict_pop p ''logits''))) ''params''
             = PDict (dict_pop p ''logits'')
         \<and> \<not> has_key (dict_pop p ''logits'') ''logits''"
proof -
  have "add_logits_to_request e (dict_get request ''image'') request s = (Inr request, s)"
    using assms(1) by (simp add: add_logits_other_kind)
  then show ?thesis
    using assms
    by (simp add: infer_def finish_result_def save_logits_def logged_def
          dict_get_set not_has_key_pop)
qed

text \<open>
  On the example store: the label is listed under \<open>("im1", "logits")\<close>, its copy is on
  disk and the temporary file \<open>/tmp/lg\<close> is gone.
\<close>

theorem infer_saves_logits_witness:
  "infer app_env seg_request (None :: unit option) empty_store =
     (Inr (PDict [(''label'', PStr ''/tmp/seg''), (''params'', PDict [])]),
      \<lparr>world = \<lparr>labels = [((''im1'', ''logits''), ''im1'')],
                files = [''/ds/logits/im1'', ''/tmp/seg'']\<rparr>,
       calls = [SuperInfer seg_request,
                SaveLabel (PStr ''im1'') (PStr ''/tmp/lg'') ''logits'' [],
                Unlink (PStr ''/tmp/lg'')]\<rparr>)"
  using infer_saves_logits [of app_env seg_request empty_store
      "[(''label'', PStr ''/tmp/seg''), (''params'', PDict [(''logits'', PStr ''/tmp/lg'')])]"
      "\<lparr>labels = [], files = [''/tmp/lg'', ''/tmp/seg'']\<rparr>"
      "[(''logits'', PStr ''/tmp/lg'')]"
      "''im1''"
      "\<lparr>labels = [((''im1'', ''logits''), ''im1'')],
        files = [''/ds/logits/im1'', ''/tmp/lg'', ''/tmp/seg'']\<rparr>"
      "\<lparr>labels = [((''im1'', ''logits''), ''im1'')],
        files = [''/ds/logits/im1'', ''/tmp/seg'']\<rparr>"
      "None :: unit option"]
  by (simp add: ex_defs)

text \<open>
  Claim C1 as stated asks only that \<open>params\<close> contain a \<open>logits\<close> value. When that
  value is the empty string the guard \<^verbatim>\<open>if logits and ...\<close> is false: nothing is saved
  and nothing is deleted, although the task is of kind \<open>SEGMENTATION\<close> and the key is
  present.
\<close>

theorem infer_blank_logits_not_saved:
  "infer_type blank_logits_env seg_request = Inr SEGMENTATION
   \<and> super_infer blank_logits_env (world empty_store) seg_request =
       (Inr (PDict [(''params'', PDict [(''logits'', PStr '''')])]), world empty_store)
   \<and> has_key [(''logits'', PStr '''')] ''logits''
   \<and> infer blank_logits_env seg_request (None :: unit option) empty_store =
       (Inr (PDict [(''params'', PDict [])]),
        \<lparr>world = \<lparr>labels = [], files = []\<rparr>, calls = [SuperInfer seg_request]\<rparr>)"
  by (simp add: blank_logits_env_def ex_defs infer_def add_logits_to_request_def
        finish_result_def save_logits_def logged_def)

text \<open>
  Claim C2. For a task of kind \<open>SCRIBBLES\<close> whose image has a saved label tagged
  \<open>"logits"\<close> (the datastore lists it, in a dictionary, and resolves its URI), the base
  inference is run on the caller's request with \<open>"logits"\<close> set to that URI: the calls
  made are the listing, the URI lookup and that base call, the world left is the one
  that base call leaves, and what is returned is its exception or its result with
  \<open>"logits"\<close> popped from \<open>params\<close>.
\<close>

theorem infer_passes_saved_logits:
  assumes "infer_type e request = Inr SCRIBBLES"
    and "get_labels_by_image_id e (world s) (dict_get request ''image'') = Inr saved_labels"
    and "distinct (map fst saved_labels)"
    and "map_of saved_labels ''logits'' = Some label"
    and "get_label_uri e (world s) label ''logits'' = Inr uri"
  shows "infer e request d s =
           ((case fst (super_infer e (world s) (dict_set request ''logits'' (PStr uri))) of
               Inl x \<Rightarrow> Inl x
             | Inr result \<Rightarrow> pop_logits result),
            \<lparr>world = snd (super_infer e (world s) (dict_set request ''logits'' (PStr uri))),
             calls = calls s @ [GetLabelsByImageId (dict_get request ''image''),
                                GetLabelUri label ''logits'',
                                SuperInfer (dict_set request ''logits'' (PStr uri))]\<rparr>)
         \<and> dict_get (dict_set request ''logits'' (PStr uri)) ''logits'' = PStr uri"
proof -
  let ?img = "dict_get request ''image''"
  let ?r1 = "dict_set request ''logits'' (PStr uri)"
  let ?s0 = "logged (GetLabelsByImageId ?img) (world s) s"
  let ?s1 = "logged (GetLabelUri label ''logits'') (world s) ?s0"
  have w0: "world ?s0 = world s" by (simp add: logged_def)
  have "add_saved_logits e saved_labels request ?s0 = (Inr ?r1, ?s1)"
    using assms(3,4,5) by (simp add: add_saved_logits_one w0)
  then have pre: "add_logits_to_request e ?img request s = (Inr ?r1, ?s1)"
    using assms(1,2) by (simp add: add_logits_to_request_def)
  have ty: "infer_type e ?r1 = Inr SCRIBBLES"
    using assms(1) by (simp add: infer_type_set_logits)
  have fin: "finish_result e ?img ?r1 res st = (pop_logits res, st)" for res st
    using ty by (rule finish_result_pop) simp
  obtain out w2 where base: "super_infer e (world s) ?r1 = (out, w2)"
    by (cases "super_infer e (world s) ?r1")
  have "infer e request d s =
          ((case out of Inl x \<Rightarrow> Inl x | Inr result \<Rightarrow> pop_logits result),
           logged (SuperInfer ?r1) w2 ?s1)"
    using pre base by (cases out) (simp_all add: infer_def Let_def logged_def fin)
  with base show ?thesis by (simp add: logged_def dict_get_set)
qed

theorem infer_passes_saved_logits_witness:
  "infer echo_env scr_request (None :: unit option) saved_store =
     (Inr (PDict [(''params'',
                   PDict [(''request'',
                           PDict [(''image'', PStr ''im1''),
                                  (''model'', PStr ''Histogram+GraphCut''),
                                  (''logits'', PStr ''/ds/logits/im1'')])])]),
      \<lparr>world = \<lparr>labels = [((''im1'', ''logits''), ''im1'')],
                files = [''/tmp/scr'', ''/ds/logits/im1'']\<rparr>,
       calls = [GetLabelsByImageId (PStr ''im1''), GetLabelUri ''im1'' ''logits'',
                SuperInfer [(''image'', PStr ''im1''), (''model'', PStr ''Histogram+GraphCut''),
                            (''logits'', PStr ''/ds/logits/im1'')]]\<rparr>)"
  using infer_passes_saved_logits [of echo_env scr_request saved_store
      "[(''logits'', ''im1'')]" "''im1''" "''/ds/logits/im1''" "None :: unit option"]
  by (simp add: echo_env_def pop_logits_def ex_defs)

text \<open>
  Claim C3. Whatever the task kind, the environment and the world: a result that
  \<^verbatim>\<open>infer\<close> returns is a dictionary whose \<open>params\<close> is a dictionary without the key
  \<open>"logits"\<close>.
\<close>

theorem infer_result_has_no_logits:
  assumes "infer e request d s = (Inr result, s')"
  shows "\<exists>r p. result = PDict r \<and> dict_get r ''params'' = PDict p \<and> \<not> has_key p ''logits''"
  using assms
  by (auto simp: infer_def Let_def split: prod.splits sum.splits
           dest: finish_result_no_logits)

theorem infer_result_has_no_logits_witness:
  "infer app_env seg_request (None :: unit option) empty_store =
     (Inr (PDict [(''label'', PStr ''/tmp/seg''), (''params'', PDict [])]),
      \<lparr>world = \<lparr>labels = [((''im1'', ''logits''), ''im1'')],
                files = [''/ds/logits/im1'', ''/tmp/seg'']\<rparr>,
       calls = [SuperInfer seg_request,
                SaveLabel (PStr ''im1'') (PStr ''/tmp/lg'') ''logits'' [],
                Unlink (PStr ''/tmp/lg'')]\<rparr>)
   \<and> (\<exists>r p. PDict [(''label'', PStr ''/tmp/seg''), (''params'', PDict [])] = PDict r
            \<and> dict_get r ''params'' = PDict p \<and> \<not> has_key p ''logits'')"
proof -
  have run: "infer app_env seg_request (None :: unit option) empty_store =
     (Inr (PDict [(''label'', PStr ''/tmp/seg''), (''params'', PDict [])]),
      \<lparr>world = \<lparr>labels = [((''im1'', ''logits''), ''im1'')],
                files = [''/ds/logits/im1'', ''/tmp/seg'']\<rparr>,
       calls = [SuperInfer seg_request,
                SaveLabel (PStr ''im1'') (PStr ''/tmp/lg'') ''logits'' [],
                Unlink (PStr ''/tmp/lg'')]\<rparr>)"
    by (simp add: ex_defs infer_def add_logits_to_request_def
          finish_result_def save_logits_def logged_def)
  from infer_result_has_no_logits [OF run] run show ?thesis by simp
qed

text \<open>
  Claim C4. For a task of kind \<open>SCRIBBLES\<close> whose image has no saved label tagged
  \<open>"logits"\<close>, the base inference is run on the request as the caller passed it, no key
  added and none changed: the calls made are the listing and that base call, the world
  left is the one that base call leaves, and what is returned is its exception or its
  result with \<open>"logits"\<close> popped from \<open>params\<close>.
\<close>

theorem infer_request_unmodified:
  assumes "infer_type e request = Inr SCRIBBLES"
    and "get_labels_by_image_id e (world s) (dict_get request ''image'') = Inr saved_labels"
    and "''logits'' \<notin> fst ` set saved_labels"
  shows "infer e request d s =
           ((case fst (super_infer e (world s) request) of
               Inl x \<Rightarrow> Inl x
             | Inr result \<Rightarrow> pop_logits result),
            \<lparr>world = snd (super_infer e (world s) request),
             calls = calls s @ [GetLabelsByImageId (dict_get request ''image''),
                                SuperInfer request]\<rparr>)"
proof -
  let ?img = "dict_get request ''image''"
  let ?s0 = "logged (GetLabelsByImageId ?img) (world s) s"
  have pre: "add_logits_to_request e ?img request s = (Inr request, ?s0)"
    using assms by (simp add: add_logits_to_request_def add_saved_logits_none)
  have fin: "finish_result e ?img request res st = (pop_logits res, st)" for res st
    using assms(1) by (rule finish_result_pop) simp
  obtain out w2 where base: "super_infer e (world s) request = (out, w2)"
    by (cases "super_infer e (world s) request")
  have "infer e request d s =
          ((case out of Inl x \<Rightarrow> Inl x | Inr result \<Rightarrow> pop_logits result),
           logged (SuperInfer request) w2 ?s0)"
    using pre base by (cases out) (simp_all add: infer_def Let_def logged_def fin)
  with base show ?thesis by (simp add: logged_def)
qed

theorem infer_request_unmodified_witness:
  "infer echo_env scr_request (None :: unit option) empty_store =
     (Inr (PDict [(''params'',
                   PDict [(''request'',
                           PDict [(''image'', PStr ''im1''),
                                  (''model'', PStr ''Histogram+GraphCut'')])])]),
      \<lparr>world = \<lparr>labels = [], files = [''/tmp/scr'']\<rparr>,
       calls = [GetLabelsByImageId (PStr ''im1''),
                SuperInfer [(''image'', PStr ''im1''),
                            (''model'', PStr ''Histogram+GraphCut'')]]\<rparr>)"
  using infer_request_unmodified [of echo_env scr_request empty_store "[]"
      "None :: unit option"]
  by (simp add: echo_env_def pop_logits_def ex_defs)




section \<open>Failures\<close>

text \<open>
  Claim C8. An exception raised by \<open>get_labels_by_image_id\<close>, by \<open>get_label_uri\<close>, by
  \<open>save_label\<close> or by \<open>os.unlink\<close> is what \<^verbatim>\<open>infer\<close> raises, unchanged; the failing
  call is the last call made and it is made once (no retry, and \<open>os.unlink\<close> is not
  attempted after a failed \<open>save_label\<close>).
\<close>

theorem infer_errors_propagate:
  "(infer_type e request = Inr SCRIBBLES \<and>
    get_labels_by_image_id e (world s) (dict_get request ''image'') = Inl x \<longrightarrow>
      infer e request d s =
        (Inl x, \<lparr>world = world s,
                 calls = calls s @ [GetLabelsByImageId (dict_get request ''image'')]\<rparr>))
   \<and> (infer_type e request = Inr SCRIBBLES \<and>
      get_labels_by_image_id e (world s) (dict_get request ''image'') = Inr saved_labels \<and>
      distinct (map fst saved_labels) \<and> map_of saved_labels ''logits'' = Some label \<and>
      get_label_uri e (world s) label ''logits'' = Inl x \<longrightarrow>
        infer e request d s =
          (Inl x, \<lparr>world = world s,
                   calls = calls s @ [GetLabelsByImageId (dict_get request ''image''),
                                      GetLabelUri label ''logits'']\<rparr>))
   \<and> (infer_type e request = Inr SEGMENTATION \<and>
      super_infer e (world s) request = (Inr (PDict r), w1) \<and>
      dict_get r ''params'' = PDict p \<and> truthy (dict_get p ''logits'') \<and>
      save_label e w1 (dict_get request ''image'') (dict_get p ''logits'') ''logits'' []
        = (Inl x, w2) \<longrightarrow>
        infer e request d s =
          (Inl x, \<lparr>world = w2,
                   calls = calls s @
                     [SuperInfer request,
                      SaveLabel (dict_get request ''image'') (dict_get p ''logits'')
                        ''logits'' []]\<rparr>))
   \<and> (infer_type e request = Inr SEGMENTATION \<and>
      super_infer e (world s) request = (Inr (PDict r), w1) \<and>
      dict_get r ''params'' = PDict p \<and> truthy (dict_get p ''logits'') \<and>
      save_label e w1 (dict_get request ''image'') (dict_get p ''logits'') ''logits'' []
        = (Inr label_id, w2) \<and>
      unlink e w2 (dict_get p ''logits'') = (Inl x, w3) \<longrightarrow>
        infer e request d s =
          (Inl x, \<lparr>world = w3,
                   calls = calls s @
                     [SuperInfer request,
                      SaveLabel (dict_get request ''image'') (dict_get p ''logits'')
                        ''logits'' [],
                      Unlink (dict_get p ''logits'')]\<rparr>))"
  using infer_labels_error [of e request s x d]
    infer_uri_error [of e request s saved_labels label x d]
    infer_save_error [of e request s r w1 p x w2 d]
    infer_unlink_error [of e request s r w1 p label_id w2 x w3 d]
  by blast

theorem infer_errors_propagate_witness:
  "infer labels_error_env scr_request (None :: unit option) saved_store =
     (Inl (MONAILabelException ''labels''),
      \<lparr>world = world saved_store, calls = [GetLabelsByImageId (PStr ''im1'')]\<rparr>)
   \<and> infer uri_error_env scr_request (None :: unit option) saved_store =
     (Inl (MONAILabelException ''uri''),
      \<lparr>world = world saved_store,
       calls = [GetLabelsByImageId (PStr ''im1''), GetLabelUri ''im1'' ''logits'']\<rparr>)
   \<and> infer save_error_env seg_request (None :: unit option) empty_store =
     (Inl (OSError ''full''),
      \<lparr>world = \<lparr>labels = [], files = [''/tmp/lg'', ''/tmp/seg'']\<rparr>,
       calls = [SuperInfer seg_request,
                SaveLabel (PStr ''im1'') (PStr ''/tmp/lg'') ''logits'' []]\<rparr>)
   \<and> infer unlink_error_env seg_request (None :: unit option) empty_store =
     (Inl (OSError ''busy''),
      \<lparr>world = \<lparr>labels = [((''im1'', ''logits''), ''im1'')],
                files = [''/ds/logits/im1'', ''/tmp/lg'', ''/tmp/seg'']\<rparr>,
       calls = [SuperInfer seg_request,
                SaveLabel (PStr ''im1'') (PStr ''/tmp/lg'') ''logits'' [],
                Unlink (PStr ''/tmp/lg'')]\<rparr>)"
proof -
  let ?r = "[(''label'', PStr ''/tmp/seg''), (''params'', PDict [(''logits'', PStr ''/tmp/lg'')])]"
  let ?p = "[(''logits'', PStr ''/tmp/lg'')]"
  let ?w1 = "\<lparr>labels = [], files = [''/tmp/lg'', ''/tmp/seg'']\<rparr>"
  let ?w2 = "\<lparr>labels = [((''im1'', ''logits''), ''im1'')],
              files = [''/ds/logits/im1'', ''/tmp/lg'', ''/tmp/seg'']\<rparr>"
  let ?d = "None :: unit option"
  have a: "infer labels_error_env scr_request ?d saved_store =
     (Inl (MONAILabelException ''labels''),
      \<lparr>world = world saved_store, calls = [GetLabelsByImageId (PStr ''im1'')]\<rparr>)"
    using infer_errors_propagate [of labels_error_env scr_request saved_store
        "MONAILabelException ''labels''" ?d "[]" "''''" "[]" ?w1 "[]" ?w1 "''''" ?w1]
    by (simp add: labels_error_env_def ex_defs)
  have b: "infer uri_error_env scr_request ?d saved_store =
     (Inl (MONAILabelException ''uri''),
      \<lparr>world = world saved_store,
       calls = [GetLabelsByImageId (PStr ''im1''), GetLabelUri ''im1'' ''logits'']\<rparr>)"
    using infer_errors_propagate [of uri_error_env scr_request saved_store
        "MONAILabelException ''uri''" ?d "[(''logits'', ''im1'')]" "''im1''" "[]" ?w1 "[]" ?w1
        "''''" ?w1]
    by (simp add: uri_error_env_def ex_defs)
  have c: "infer save_error_env seg_request ?d empty_store =
     (Inl (OSError ''full''),
      \<lparr>world = ?w1,
       calls = [SuperInfer seg_request,
                SaveLabel (PStr ''im1'') (PStr ''/tmp/lg'') ''logits'' []]\<rparr>)"
    using infer_errors_propagate [of save_error_env seg_request empty_store
        "OSError ''full''" ?d "[]" "''''" ?r ?w1 ?p ?w1 "''''" ?w1]
    by (simp add: save_error_env_def ex_defs)
  have d: "infer unlink_error_env seg_request ?d empty_store =
     (Inl (OSError ''busy''),
      \<lparr>world = ?w2,
       calls = [SuperInfer seg_request,
                SaveLabel (PStr ''im1'') (PStr ''/tmp/lg'') ''logits'' [],
                Unlink (PStr ''/tmp/lg'')]\<rparr>)"
    using infer_errors_propagate [of unlink_error_env seg_request empty_store
        "OSError ''busy''" ?d "[]" "''''" ?r ?w1 ?p ?w2 "''im1''" ?w2]
    by (simp add: unlink_error_env_def ex_defs)
  from a b c d show ?thesis by simp
qed

text \<open>
  Claim C9. When the request's \<open>"model"\<close> is absent or is no key of the task registry,
  whatever the kinds of the registered tasks, \<^verbatim>\<open>infer\<close> raises at the registry lookup
  (\<open>KeyError\<close> of the value, or \<open>TypeError\<close> for an unhashable one): no call is made, so
  the base inference is not reached, and the world is left as it was.
\<close>

theorem infer_unknown_model_fails:
  assumes "\<forall>m. dict_get request ''model'' = PStr m \<longrightarrow> map_of (infers e) m = None"
  shows "\<exists>x. (x = TypeError \<or> x = KeyError (dict_get request ''model''))
             \<and> infer_type e request = Inl x \<and> infer e request d s = (Inl x, s)"
  using infer_type_unregistered [OF assms]
  by (auto simp: infer_def Let_def add_logits_to_request_def)

theorem infer_unknown_model_fails_witness:
  "infer app_env [(''image'', PStr ''im1'')] (None :: unit option) saved_store
     = (Inl (KeyError PNone), saved_store)
   \<and> infer app_env [(''image'', PStr ''im1''), (''model'', PStr ''nope'')]
       (None :: unit option) saved_store
     = (Inl (KeyError (PStr ''nope'')), saved_store)"
  using infer_unknown_model_fails [of "[(''image'', PStr ''im1'')]" app_env
      "None :: unit option" saved_store]
    infer_unknown_model_fails [of "[(''image'', PStr ''im1''), (''model'', PStr ''nope'')]"
      app_env "None :: unit option" saved_store]
  by (auto simp: ex_defs)

text \<open>
  Claim C10. \<^verbatim>\<open>infer\<close> does not depend on its \<open>datastore\<close> argument: for any two values
  of it the calls made (with their arguments, the base inference among them), the world
  left and the result or exception are the same.
\<close>

theorem infer_ignores_datastore_argument:
  "infer e request d1 s = infer e request d2 s"
  by (simp add: infer_def)

theorem infer_ignores_datastore_argument_witness:
  "infer app_env scr_request (None :: store option) saved_store
     = infer app_env scr_request (Some (world empty_store)) saved_store"
  using infer_ignores_datastore_argument
          [of app_env scr_request "None :: store option" saved_store "Some (world empty_store)"]
  by simp

section \<open>Configuration\<close>

lemma strtobool_cases:
  "strtobool v =
     (if lower v \<in> set true_words then Inr 1
      else if lower v \<in> set false_words then Inr 0
      else Inl (ValueError (lower v)))"
  by (simp add: strtobool_def Let_def)

lemma py_int_default: "py_int ''5'' = Inr 5"
  by (simp add: py_int_def strip_def is_space_def digit_val_def int_max_str_digits_def)

lemma init_strategies_keys:
  "(''TTA'' \<in> fst ` set (init_strategies app)) = (tta_enabled app \<noteq> 0)"
  "map_of (init_strategies app) ''random'' = Some Random"
  "map_of (init_strategies app) ''first'' = Some MyStrategy"
  by (simp_all add: init_strategies_def)

lemma init_scoring_methods_keys:
  "init_scoring_methods load app = Inr ms \<Longrightarrow>
   (''TTA'' \<in> fst ` set ms) = (tta_enabled app \<noteq> 0)"
  by (auto simp: init_scoring_methods_def split: if_splits sum.splits)

lemma init_scoring_methods_samples:
  "init_scoring_methods load app = Inr ms \<Longrightarrow> map_of ms ''TTA'' = Some sc \<Longrightarrow>
   num_samples sc = tta_samples app"
  by (auto simp: init_scoring_methods_def split: if_splits sum.splits)

lemma init_scoring_methods_loaded:
  "load (mmar app) (model_dir app) = Inr net \<Longrightarrow> \<exists>ms. init_scoring_methods load app = Inr ms"
  by (simp add: init_scoring_methods_def)

lemma MyApp_init_enabled:
  "MyApp_init app_dir studies conf = Inr app \<Longrightarrow>
   (tta_enabled app \<noteq> 0) = (lower (conf_get conf ''tta_enabled'' ''false'') \<in> set true_words)"
  by (auto simp: MyApp_init_def strtobool_cases Let_def split: if_splits sum.splits)

lemma MyApp_init_samples:
  "MyApp_init app_dir studies conf = Inr app \<Longrightarrow>
   py_int (conf_get conf ''tta_samples'' ''5'') = Inr (tta_samples app)"
  by (auto simp: MyApp_init_def Let_def split: if_splits sum.splits)

lemma MyApp_init_invalid:
  "lower (conf_get conf ''tta_enabled'' ''false'') \<notin> set true_words \<Longrightarrow>
   lower (conf_get conf ''tta_enabled'' ''false'') \<notin> set false_words \<Longrightarrow>
   MyApp_init app_dir studies conf
     = Inl (ValueError (lower (conf_get conf ''tta_enabled'' ''false'')))"
  by (simp add: MyApp_init_def strtobool_cases Let_def)

lemma conf_get_default: "k \<notin> fst ` set conf \<Longrightarrow> conf_get conf k dflt = dflt"
  by (simp add: conf_get_def map_of_eq_None_iff [THEN iffD2])

text \<open>
  Claim C6, as the code has it. When \<^verbatim>\<open>__init__\<close> succeeds, \<open>"TTA"\<close> is a key of the
  strategies, and of the scoring methods (which exist when the model archive loads),
  exactly when the lower-cased \<open>tta_enabled\<close> is one of \<open>y\<close>, \<open>yes\<close>, \<open>t\<close>, \<open>true\<close>, \<open>on\<close>,
  \<open>1\<close>; \<open>"random"\<close> and \<open>"first"\<close> are registered in every such case. A value that is
  neither one of these nor one of \<open>n\<close>, \<open>no\<close>, \<open>f\<close>, \<open>false\<close>, \<open>off\<close>, \<open>0\<close> makes
  \<^verbatim>\<open>__init__\<close> raise \<open>ValueError\<close>.
\<close>

theorem tta_registered_iff_strtobool_true:
  "(\<forall>app. MyApp_init app_dir studies conf = Inr app \<longrightarrow>
      (''TTA'' \<in> fst ` set (init_strategies app))
         = (lower (conf_get conf ''tta_enabled'' ''false'') \<in> set true_words)
      \<and> (\<forall>ms. init_scoring_methods load_from_mmar app = Inr ms \<longrightarrow>
            (''TTA'' \<in> fst ` set ms)
              = (lower (conf_get conf ''tta_enabled'' ''false'') \<in> set true_words))
      \<and> (\<forall>net. load_from_mmar (mmar app) (model_dir app) = Inr net \<longrightarrow>
            (\<exists>ms. init_scoring_methods load_from_mmar app = Inr ms))
      \<and> map_of (init_strategies app) ''random'' = Some Random
      \<and> map_of (init_strategies app) ''first'' = Some MyStrategy)
   \<and> (lower (conf_get conf ''tta_enabled'' ''false'') \<notin> set true_words \<and>
      lower (conf_get conf ''tta_enabled'' ''false'') \<notin> set false_words \<longrightarrow>
        MyApp_init app_dir studies conf
          = Inl (ValueError (lower (conf_get conf ''tta_enabled'' ''false''))))"
proof (intro conjI allI impI)
  fix app assume a: "MyApp_init app_dir studies conf = Inr app"
  show "(''TTA'' \<in> fst ` set (init_strategies app))
         = (lower (conf_get conf ''tta_enabled'' ''false'') \<in> set true_words)"
    using MyApp_init_enabled [OF a] by (simp add: init_strategies_keys(1))
  show "map_of (init_strategies app) ''random'' = Some Random"
    by (rule init_strategies_keys(2))
  show "map_of (init_strategies app) ''first'' = Some MyStrategy"
    by (rule init_strategies_keys(3))
  { fix ms assume "init_scoring_methods load_from_mmar app = Inr ms"
    then show "(''TTA'' \<in> fst ` set ms)
                = (lower (conf_get conf ''tta_enabled'' ''false'') \<in> set true_words)"
      using MyApp_init_enabled [OF a] by (simp add: init_scoring_methods_keys) }
  { fix net assume "load_from_mmar (mmar app) (model_dir app) = Inr net"
    then show "\<exists>ms. init_scoring_methods load_from_mmar app = Inr ms"
      by (rule init_scoring_methods_loaded) }
next
  assume "lower (conf_get conf ''tta_enabled'' ''false'') \<notin> set true_words \<and>
          lower (conf_get conf ''tta_enabled'' ''false'') \<notin> set false_words"
  then show "MyApp_init app_dir studies conf
               = Inl (ValueError (lower (conf_get conf ''tta_enabled'' ''false'')))"
    by (simp add: MyApp_init_invalid)
qed

theorem tta_registered_iff_strtobool_true_witness:
  "MyApp_init ''/app'' ''/st'' [(''tta_enabled'', ''True'')] = Inr app_on
   \<and> ''TTA'' \<in> fst ` set (init_strategies app_on)
   \<and> init_scoring_methods loaded app_on =
       Inr [(''TTA'', \<lparr>model = ''/app/model/model.pt'', network = (), num_samples = 5,
                       spatial_size = (128, 128, 64), spacing = (1, 1, 1)\<rparr>)]
   \<and> map_of (init_strategies app_on) ''random'' = Some Random
   \<and> map_of (init_strategies app_on) ''first'' = Some MyStrategy
   \<and> MyApp_init ''/app'' ''/st'' [(''tta_enabled'', ''off'')] = Inr app_off
   \<and> ''TTA'' \<notin> fst ` set (init_strategies app_off)
   \<and> init_scoring_methods loaded app_off = Inr []
   \<and> MyApp_init ''/app'' ''/st'' [(''tta_enabled'', ''maybe'')] = Inl (ValueError ''maybe'')"
proof -
  have on: "MyApp_init ''/app'' ''/st'' [(''tta_enabled'', ''True'')] = Inr app_on"
    and off: "MyApp_init ''/app'' ''/st'' [(''tta_enabled'', ''off'')] = Inr app_off"
    and sc_on: "init_scoring_methods loaded app_on =
       Inr [(''TTA'', \<lparr>model = ''/app/model/model.pt'', network = (), num_samples = 5,
                       spatial_size = (128, 128, 64), spacing = (1, 1, 1)\<rparr>)]"
    and sc_off: "init_scoring_methods loaded app_off = Inr []"
    by (simp_all add: conf_defs)
  have t: "lower (conf_get [(''tta_enabled'', ''True'')] ''tta_enabled'' ''false'') \<in> set true_words"
    and f: "lower (conf_get [(''tta_enabled'', ''off'')] ''tta_enabled'' ''false'') \<notin> set true_words"
    and m: "lower (conf_get [(''tta_enabled'', ''maybe'')] ''tta_enabled'' ''false'') = ''maybe''"
      "''maybe'' \<notin> set true_words" "''maybe'' \<notin> set false_words"
    by (simp_all add: conf_get_def lower_def lower_char_def latin1_capitals_def latin1_smalls_def true_words_def false_words_def)
  from tta_registered_iff_strtobool_true
         [of "''/app''" "''/st''" "[(''tta_enabled'', ''True'')]" loaded] on t
  have 1: "''TTA'' \<in> fst ` set (init_strategies app_on)"
    and 2: "map_of (init_strategies app_on) ''random'' = Some Random"
    and 3: "map_of (init_strategies app_on) ''first'' = Some MyStrategy"
    by blast+
  from tta_registered_iff_strtobool_true
         [of "''/app''" "''/st''" "[(''tta_enabled'', ''off'')]" loaded] off f
  have 4: "''TTA'' \<notin> fst ` set (init_strategies app_off)"
    by blast
  from tta_registered_iff_strtobool_true
         [of "''/app''" "''/st''" "[(''tta_enabled'', ''maybe'')]" loaded] m
  have 5: "MyApp_init ''/app'' ''/st'' [(''tta_enabled'', ''maybe'')] = Inl (ValueError ''maybe'')"
    by simp
  from on off sc_on sc_off 1 2 3 4 5 show ?thesis by simp
qed

text \<open>
  Claim C6 as stated has every value other than \<open>"true"\<close> leave \<open>"TTA"\<close> out. With
  \<open>tta_enabled = "yes"\<close> both registries hold \<open>"TTA"\<close>.
\<close>

theorem tta_enabled_yes_registers_tta:
  "MyApp_init ''/app'' ''/st'' [(''tta_enabled'', ''yes'')] = Inr app_on
   \<and> init_strategies app_on = [(''TTA'', TTA), (''random'', Random), (''first'', MyStrategy)]
   \<and> init_scoring_methods loaded app_on =
       Inr [(''TTA'', \<lparr>model = ''/app/model/model.pt'', network = (), num_samples = 5,
                       spatial_size = (128, 128, 64), spacing = (1, 1, 1)\<rparr>)]"
  by (simp add: conf_defs)

text \<open>
  Claim C7. A configuration without \<open>tta_enabled\<close> is read as \<open>"false"\<close>: the flag is 0,
  no \<open>"TTA"\<close> strategy is registered and the scoring methods are empty. A configuration
  without \<open>tta_samples\<close> is read as \<open>"5"\<close>: the sample count is 5, and 5 is the
  \<open>num_samples\<close> of the \<open>"TTA"\<close> scoring method when there is one.
\<close>

theorem conf_defaults:
  "(''tta_enabled'' \<notin> fst ` set conf \<longrightarrow>
      strtobool (conf_get conf ''tta_enabled'' ''false'') = Inr 0
      \<and> (\<forall>app. MyApp_init app_dir studies conf = Inr app \<longrightarrow>
            tta_enabled app = 0
            \<and> ''TTA'' \<notin> fst ` set (init_strategies app)
            \<and> init_scoring_methods load_from_mmar app = Inr []))
   \<and> (''tta_samples'' \<notin> fst ` set conf \<longrightarrow>
      py_int (conf_get conf ''tta_samples'' ''5'') = Inr 5
      \<and> (\<forall>app. MyApp_init app_dir studies conf = Inr app \<longrightarrow>
            tta_samples app = 5
            \<and> (\<forall>ms sc. init_scoring_methods load_from_mmar app = Inr ms \<and>
                  map_of ms ''TTA'' = Some sc \<longrightarrow> num_samples sc = 5)))"
proof (intro conjI impI allI)
  assume k: "''tta_enabled'' \<notin> fst ` set conf"
  then have v: "conf_get conf ''tta_enabled'' ''false'' = ''false''"
    by (rule conf_get_default)
  have l: "lower ''false'' \<notin> set true_words"
    by (simp add: lower_def lower_char_def latin1_capitals_def latin1_smalls_def true_words_def)
  show "strtobool (conf_get conf ''tta_enabled'' ''false'') = Inr 0"
    by (simp add: v strtobool_def lower_def lower_char_def latin1_capitals_def latin1_smalls_def true_words_def false_words_def)
  fix app assume a: "MyApp_init app_dir studies conf = Inr app"
  from MyApp_init_enabled [OF a] v l show off: "tta_enabled app = 0" by simp
  then show "''TTA'' \<notin> fst ` set (init_strategies app)"
    by (simp add: init_strategies_keys(1))
  from off show "init_scoring_methods load_from_mmar app = Inr []"
    by (simp add: init_scoring_methods_def)
next
  assume k: "''tta_samples'' \<notin> fst ` set conf"
  then have v: "conf_get conf ''tta_samples'' ''5'' = ''5''"
    by (rule conf_get_default)
  show "py_int (conf_get conf ''tta_samples'' ''5'') = Inr 5"
    by (simp add: v py_int_default)
  fix app assume a: "MyApp_init app_dir studies conf = Inr app"
  from MyApp_init_samples [OF a] v show n: "tta_samples app = 5"
    by (simp add: py_int_default)
  fix ms sc
  assume "init_scoring_methods load_from_mmar app = Inr ms \<and> map_of ms ''TTA'' = Some sc"
  then show "num_samples sc = 5"
    using init_scoring_methods_samples [of load_from_mmar app ms sc] n by simp
qed

theorem conf_defaults_witness:
  "MyApp_init ''/app'' ''/st'' [] = Inr app_off
   \<and> tta_enabled app_off = 0 \<and> tta_samples app_off = 5
   \<and> ''TTA'' \<notin> fst ` set (init_strategies app_off)
   \<and> init_scoring_methods loaded app_off = Inr []
   \<and> MyApp_init ''/app'' ''/st'' [(''tta_enabled'', ''true'')] = Inr app_on
   \<and> init_scoring_methods loaded app_on =
       Inr [(''TTA'', \<lparr>model = ''/app/model/model.pt'', network = (), num_samples = 5,
                       spatial_size = (128, 128, 64), spacing = (1, 1, 1)\<rparr>)]
   \<and> num_samples \<lparr>model = ''/app/model/model.pt'', network = (), num_samples = 5,
                   spatial_size = (128, 128, 64), spacing = (1, 1, 1)\<rparr> = 5"
proof -
  let ?sc = "\<lparr>model = ''/app/model/model.pt'', network = (), num_samples = 5,
              spatial_size = (128, 128, 64), spacing = (1, 1, 1)\<rparr>"
  have off: "MyApp_init ''/app'' ''/st'' [] = Inr app_off"
    and on: "MyApp_init ''/app'' ''/st'' [(''tta_enabled'', ''true'')] = Inr app_on"
    and sc: "init_scoring_methods loaded app_on = Inr [(''TTA'', ?sc)]"
    by (simp_all add: conf_defs)
  from conf_defaults [of "[]" "''/app''" "''/st''" loaded] off
  have 1: "tta_enabled app_off = 0 \<and> tta_samples app_off = 5
           \<and> ''TTA'' \<notin> fst ` set (init_strategies app_off)
           \<and> init_scoring_methods loaded app_off = Inr []"
    by simp
  have "''tta_samples'' \<notin> fst ` set [(''tta_enabled'', ''true'')]" by simp
  with conf_defaults [of "[(''tta_enabled'', ''true'')]" "''/app''" "''/st''" loaded] on sc
  have 2: "num_samples ?sc = 5"
    by (metis map_of_Cons_code(2))
  from off on sc 1 2 show ?thesis by simp
qed

end
